theory Spec2Isabelle
  imports Main "HOL-Library.Sublist"
begin

section \<open>The quiz client of static/script.js\<close>

text \<open>
  The script is one \<^verbatim>\<open>DOMContentLoaded\<close> handler that owns two variables
  (\<^verbatim>\<open>currentQuestion\<close>, \<^verbatim>\<open>isLoading\<close>), a table of page elements, and the
  callbacks of three kinds of request and of the image loader. The embedding keeps the
  controller state and the properties of the page elements the script writes in one record,
  every function of the script as a function on that record, and every callback the browser
  can run (a click, a settled request, an image event) as an event of a step function.
\<close>

subsection \<open>Server payloads\<close>

text \<open>
  \<^verbatim>\<open>GET /get_question\<close> answers with a question object or with an object that has only
  an \<^verbatim>\<open>error\<close> field. \<^verbatim>\<open>null\<close> and a missing field are \<open>None\<close>.
\<close>

text \<open>
  A JSON number as \<^verbatim>\<open>response.json()\<close> delivers it (an IEEE double) is kept as the text
  that \<^verbatim>\<open>String\<close> gives for it, which is what an assignment to \<^verbatim>\<open>textContent\<close>
  shows; the script does no arithmetic on the numbers it receives.
\<close>

type_synonym js_number = string

record question =
  q_question :: string
  q_options :: "string list"
  q_correct_answer :: string
  q_hint :: "string option"
  q_difficulty :: string
  q_image :: "string option"

datatype question_payload = ErrorPayload string | QuestionPayload question

record answer_result =
  a_is_correct :: bool
  a_correct_answer :: string
  a_score :: js_number
  a_total_questions :: js_number

record history_entry =
  h_question :: string
  h_user_answer :: string
  h_correct_answer :: string
  h_difficulty :: string
  h_timestamp :: string
  h_is_correct :: bool

record history_payload =
  hp_history :: "history_entry list"
  hp_score :: js_number
  hp_total_questions :: js_number

text \<open>
  How a \<^verbatim>\<open>fetch\<close> settles: the promise rejects, the response is not \<^verbatim>\<open>ok\<close>, the body
  is not JSON (\<^verbatim>\<open>response.json()\<close> rejects), or a payload arrives.
\<close>

datatype 'a response = Rejected | NotOk | BadBody | Payload 'a

datatype js_error = Rejection | Error string | SyntaxError | TypeError

text \<open>A callback either returns or throws; the writes made before the throw stay.\<close>

datatype 'a outcome = Returned 'a | Threw js_error 'a

text \<open>JavaScript truthiness of a string-or-null value: \<^verbatim>\<open>null\<close>, \<^verbatim>\<open>undefined\<close> and
  the empty string are falsy.\<close>

definition truthy :: "string option \<Rightarrow> bool" where
  "truthy v = (case v of None \<Rightarrow> False | Some x \<Rightarrow> x \<noteq> [])"

subsection \<open>Page elements\<close>

record option_button =
  textContent :: string
  classList :: "string list"
  disabled :: bool

text \<open>
  The children of the image container: the placeholder markup, the spinner of the
  \<open>i\<close>-th image load, the image element of the \<open>i\<close>-th load.
\<close>

datatype image_node = Placeholder | Spinner nat | QuestionImage nat

text \<open>
  One call of \<^verbatim>\<open>displayImage\<close> with a URL: the \<^verbatim>\<open>Image\<close> object it creates and the timer
  it sets. \<open>Cancelled\<close> is the image after \<^verbatim>\<open>img.src = ''\<close>: it can no longer load.
  \<open>il_timer\<close> is the delay of the pending timeout, \<open>None\<close> once cleared or fired.
\<close>

datatype load_status = Loading | Cancelled | Settled

record image_load =
  il_src :: string
  il_status :: load_status
  il_timer :: "nat option"

record ui_state =
  currentQuestion :: "question_payload option"
  isLoading :: bool
  startButton_disabled :: bool
  nextButton_disabled :: bool
  nextButton_text :: string
  hintButton_disabled :: bool
  questionContainer_hidden :: bool
  resultContainer_hidden :: bool
  startContainer_hidden :: bool
  questionText :: string
  optionsContainer :: "option_button list"
  hintText :: string
  hintText_hidden :: bool
  resultText :: string
  scoreDisplay :: string
  totalQuestionsDisplay :: string
  historyList :: string
  imageContainer :: "image_node list"
  image_loads :: "image_load list"
  fetching_question :: nat
  checking_answer :: "string list"
  fetching_history :: nat

text \<open>
  \<open>fetching_question\<close> counts the \<^verbatim>\<open>/get_question\<close> requests in flight,
  \<open>checking_answer\<close> lists the selected option of every \<^verbatim>\<open>/check_answer\<close> request in
  flight, \<open>fetching_history\<close> counts the \<^verbatim>\<open>/get_history\<close> requests in flight. The two
  score fields hold the text of their elements.
\<close>

subsection \<open>Local fallback questions\<close>

definition localFallbackQuestions :: "question list" where
  "localFallbackQuestions =
    [\<lparr>q_question = ''Which river is the longest in the world?'',
      q_options = [''Amazon'', ''Nile'', ''Yangtze'', ''Mississippi''],
      q_correct_answer = ''Nile'',
      q_hint = Some ''This river flows through northeastern Africa.'',
      q_difficulty = ''medium'', q_image = None\<rparr>,
     \<lparr>q_question = ''What is the capital of Japan?'',
      q_options = [''Kyoto'', ''Osaka'', ''Tokyo'', ''Hiroshima''],
      q_correct_answer = ''Tokyo'',
      q_hint = Some ''This city hosted the 2020 Summer Olympics.'',
      q_difficulty = ''easy'', q_image = None\<rparr>,
     \<lparr>q_question = ''Which country is known as the 'Land of the Rising Sun'?'',
      q_options = [''China'', ''South Korea'', ''Japan'', ''Thailand''],
      q_correct_answer = ''Japan'',
      q_hint = Some ''This country's flag features a red circle on a white background.'',
      q_difficulty = ''easy'', q_image = None\<rparr>]"

subsection \<open>Buttons and panels\<close>

definition disableButtons :: "ui_state \<Rightarrow> ui_state" where
  "disableButtons s =
     s\<lparr>startButton_disabled := True, hintButton_disabled := True, nextButton_disabled := True\<rparr>"

definition enableButtons :: "ui_state \<Rightarrow> ui_state" where
  "enableButtons s =
     s\<lparr>startButton_disabled := False, hintButton_disabled := False, nextButton_disabled := True\<rparr>"

definition has_class :: "string \<Rightarrow> option_button \<Rightarrow> bool" where
  "has_class c b = (c \<in> set (classList b))"

definition classList_add :: "string \<Rightarrow> option_button \<Rightarrow> option_button" where
  "classList_add c b = (if has_class c b then b else b\<lparr>classList := classList b @ [c]\<rparr>)"

text \<open>\<^verbatim>\<open>querySelectorAll('.option-button').forEach(f)\<close>: \<open>f\<close> on every child that
  carries the class, in document order.\<close>

definition forEach_option_button ::
  "(option_button \<Rightarrow> option_button) \<Rightarrow> option_button list \<Rightarrow> option_button list" where
  "forEach_option_button f bs = map (\<lambda>b. if has_class ''option-button'' b then f b else b) bs"

definition disableOptions :: "ui_state \<Rightarrow> ui_state" where
  "disableOptions s =
     s\<lparr>optionsContainer := forEach_option_button (\<lambda>b. b\<lparr>disabled := True\<rparr>) (optionsContainer s)\<rparr>"

definition showImagePlaceholder :: "ui_state \<Rightarrow> ui_state" where
  "showImagePlaceholder s = s\<lparr>imageContainer := [Placeholder]\<rparr>"

definition resetHint :: "ui_state \<Rightarrow> ui_state" where
  "resetHint s = s\<lparr>hintText_hidden := True, hintButton_disabled := False\<rparr>"

definition resetUIState :: "ui_state \<Rightarrow> ui_state" where
  "resetUIState s =
     showImagePlaceholder
       (s\<lparr>questionContainer_hidden := True, resultContainer_hidden := True,
          hintText_hidden := True, hintButton_disabled := False,
          optionsContainer := [], questionText := [], resultText := []\<rparr>)"

definition showLoadingState :: "ui_state \<Rightarrow> ui_state" where
  "showLoadingState s =
     showImagePlaceholder
       (disableButtons (s\<lparr>questionText := ''Loading question...'',
                          questionContainer_hidden := False\<rparr>))"

text \<open>\<^verbatim>\<open>showAnswerCheckingState\<close> is defined in the script and called nowhere.\<close>

definition showAnswerCheckingState :: "ui_state \<Rightarrow> ui_state" where
  "showAnswerCheckingState s =
     (disableButtons s)\<lparr>resultText := ''Checking answer...'', resultContainer_hidden := False\<rparr>"

definition showErrorState :: "ui_state \<Rightarrow> ui_state" where
  "showErrorState s =
     enableButtons (s\<lparr>resultText := ''An error occurred. Please try again.'',
                      resultContainer_hidden := False,
                      nextButton_text := ''Try Again''\<rparr>)"

definition createOptionButtons :: "string list \<Rightarrow> ui_state \<Rightarrow> ui_state" where
  "createOptionButtons opts s =
     s\<lparr>optionsContainer :=
         map (\<lambda>option. \<lparr>textContent = option, classList = [''option-button''], disabled = False\<rparr>)
           opts\<rparr>"

subsection \<open>Image display\<close>

text \<open>
  \<^verbatim>\<open>displayImage\<close> assigns \<^verbatim>\<open>onload\<close> and \<^verbatim>\<open>onerror\<close> twice before it sets
  \<^verbatim>\<open>img.src\<close>; the second pair, which clears the timeout, is the one in force when an
  event can fire, and the one modelled. The new load gets the next free index.
\<close>

definition displayImage :: "string option \<Rightarrow> ui_state \<Rightarrow> ui_state" where
  "displayImage imageUrl s =
     (case imageUrl of
        None \<Rightarrow> showImagePlaceholder (s\<lparr>imageContainer := []\<rparr>)
      | Some url \<Rightarrow>
          if url = [] then showImagePlaceholder (s\<lparr>imageContainer := []\<rparr>)
          else s\<lparr>imageContainer := [Spinner (length (image_loads s))],
                 image_loads := image_loads s @
                   [\<lparr>il_src = url, il_status = Loading, il_timer = Some 5000\<rparr>]\<rparr>)"

definition remove_spinner :: "nat \<Rightarrow> image_node list \<Rightarrow> image_node list" where
  "remove_spinner i c = (if Spinner i \<in> set c then remove1 (Spinner i) c else c)"

definition img_onload :: "nat \<Rightarrow> ui_state \<Rightarrow> ui_state" where
  "img_onload i s =
     s\<lparr>image_loads := (image_loads s)[i := (image_loads s ! i)\<lparr>il_timer := None, il_status := Settled\<rparr>],
       imageContainer :=
         remove1 (QuestionImage i) (remove_spinner i (imageContainer s)) @ [QuestionImage i]\<rparr>"

definition img_onerror :: "nat \<Rightarrow> ui_state \<Rightarrow> ui_state" where
  "img_onerror i s =
     showImagePlaceholder
       (s\<lparr>image_loads := (image_loads s)[i := (image_loads s ! i)\<lparr>il_timer := None, il_status := Settled\<rparr>],
          imageContainer := remove_spinner i (imageContainer s)\<rparr>)"

definition img_timeout :: "nat \<Rightarrow> ui_state \<Rightarrow> ui_state" where
  "img_timeout i s =
     (let s1 = s\<lparr>image_loads := (image_loads s)[i := (image_loads s ! i)\<lparr>il_timer := None\<rparr>]\<rparr>
      in if Spinner i \<in> set (imageContainer s1)
         then (showImagePlaceholder (s1\<lparr>imageContainer := remove1 (Spinner i) (imageContainer s1)\<rparr>))
                \<lparr>image_loads := (image_loads s1)[i := (image_loads s1 ! i)\<lparr>il_src := [], il_status := Cancelled\<rparr>]\<rparr>
         else s1)"

subsection \<open>Questions\<close>

definition displayQuestion :: "question \<Rightarrow> ui_state \<Rightarrow> ui_state" where
  "displayQuestion data s =
     (let s1 = s\<lparr>questionText := q_question data\<rparr>;
          s2 = (if truthy (q_image data) then displayImage (q_image data) s1
                else showImagePlaceholder s1);
          s3 = createOptionButtons (q_options data) s2
      in resetHint s3)"

text \<open>
  \<^verbatim>\<open>getLocalFallbackQuestion\<close>; \<open>r\<close> is the index that
  \<^verbatim>\<open>Math.floor(Math.random() * localFallbackQuestions.length)\<close> draws. Nothing in the
  script calls it.
\<close>

definition getLocalFallbackQuestion :: "nat \<Rightarrow> ui_state \<Rightarrow> ui_state" where
  "getLocalFallbackQuestion r s =
     (let fallback = localFallbackQuestions ! r
      in displayQuestion fallback (s\<lparr>currentQuestion := Some (QuestionPayload fallback)\<rparr>))"

definition loadNextQuestion :: "ui_state \<Rightarrow> ui_state" where
  "loadNextQuestion s =
     (if isLoading s then s
      else (showLoadingState (resetUIState (s\<lparr>isLoading := True\<rparr>)))
             \<lparr>fetching_question := Suc (fetching_question s)\<rparr>)"

definition startQuiz :: "ui_state \<Rightarrow> ui_state" where
  "startQuiz s = (if isLoading s then s else loadNextQuestion s)"

text \<open>
  The second \<^verbatim>\<open>.then\<close> callback of \<^verbatim>\<open>loadNextQuestion\<close>. An \<^verbatim>\<open>error\<close> field that
  is the empty string is falsy, so the callback goes on with an object that has no question
  fields: \<^verbatim>\<open>textContent = undefined\<close> empties the question text, the missing image gives
  the placeholder, \<^verbatim>\<open>createOptionButtons(undefined)\<close> empties the options container and
  then throws a \<^verbatim>\<open>TypeError\<close> at \<^verbatim>\<open>options.forEach\<close>.
\<close>

definition question_then :: "question_payload \<Rightarrow> ui_state \<Rightarrow> ui_state outcome" where
  "question_then data s =
     (case data of
        ErrorPayload e \<Rightarrow>
          if e \<noteq> [] then Threw (Error e) s
          else Threw TypeError
                 ((showImagePlaceholder (s\<lparr>currentQuestion := Some data, questionText := []\<rparr>))
                    \<lparr>optionsContainer := []\<rparr>)
      | QuestionPayload q \<Rightarrow>
          Returned ((displayQuestion q (s\<lparr>currentQuestion := Some data\<rparr>))
                      \<lparr>startContainer_hidden := True, questionContainer_hidden := False,
                        resultContainer_hidden := True, nextButton_disabled := True\<rparr>))"

text \<open>The promise chain of \<^verbatim>\<open>loadNextQuestion\<close> from the settled request to the end of
  \<^verbatim>\<open>.finally\<close>; no other callback can run in between.\<close>

definition question_settled :: "question_payload response \<Rightarrow> ui_state \<Rightarrow> ui_state" where
  "question_settled r s =
     (let s0 = s\<lparr>fetching_question := fetching_question s - 1\<rparr>;
          result = (case r of
                      Rejected \<Rightarrow> Threw Rejection s0
                    | NotOk \<Rightarrow> Threw (Error ''Network response was not ok'') s0
                    | BadBody \<Rightarrow> Threw SyntaxError s0
                    | Payload data \<Rightarrow> question_then data s0);
          caught = (case result of Returned s1 \<Rightarrow> s1 | Threw err s1 \<Rightarrow> showErrorState s1)
      in enableButtons (caught\<lparr>isLoading := False\<rparr>))"

subsection \<open>Hint\<close>

text \<open>\<^verbatim>\<open>currentQuestion?.hint\<close>: \<^verbatim>\<open>undefined\<close> on \<^verbatim>\<open>null\<close> and on an object
  without the field.\<close>

definition hint_of :: "question_payload option \<Rightarrow> string option" where
  "hint_of cq =
     (case cq of None \<Rightarrow> None | Some (ErrorPayload e) \<Rightarrow> None | Some (QuestionPayload q) \<Rightarrow> q_hint q)"

definition showHint :: "ui_state \<Rightarrow> ui_state" where
  "showHint s =
     (case hint_of (currentQuestion s) of
        None \<Rightarrow> s
      | Some h \<Rightarrow>
          if h = [] then s
          else s\<lparr>hintText := h, hintText_hidden := False, hintButton_disabled := True\<rparr>)"

subsection \<open>History\<close>

type_synonym time_format = "string \<Rightarrow> string"

text \<open>
  \<^verbatim>\<open>new Date(item.timestamp).toLocaleTimeString()\<close> depends on the browser's locale and
  time zone; it is a parameter \<open>fmt\<close> of the model.
\<close>

definition nl :: string where
  "nl = [CHR 0x0A]"

definition spaces :: "nat \<Rightarrow> string" where
  "spaces n = replicate n (CHR '' '')"

definition history_item :: "time_format \<Rightarrow> history_entry \<Rightarrow> string" where
  \<open>history_item fmt item =
     nl @ spaces 16 @ ''<div class="history-item '' @
       (if h_is_correct item then ''correct'' else ''incorrect'') @ ''">'' @
     nl @ spaces 20 @ ''<div class="history-question">'' @ h_question item @ ''</div>'' @
     nl @ spaces 20 @ ''<div class="history-details">'' @
     nl @ spaces 24 @ ''<span class="user-answer">You: '' @ h_user_answer item @ ''</span>'' @
     nl @ spaces 24 @ ''<span class="correct-answer">Correct: '' @ h_correct_answer item @ ''</span>'' @
     nl @ spaces 24 @ ''<span class="difficulty-badge '' @ h_difficulty item @ ''">'' @
       h_difficulty item @ ''</span>'' @
     nl @ spaces 20 @ ''</div>'' @
     nl @ spaces 20 @ ''<div class="history-time">'' @ fmt (h_timestamp item) @ ''</div>'' @
     nl @ spaces 16 @ ''</div>'' @
     nl @ spaces 12\<close>

text \<open>\<^verbatim>\<open>Array.prototype.join\<close>.\<close>

fun join :: "string \<Rightarrow> string list \<Rightarrow> string" where
  "join sep [] = []"
| "join sep [x] = x"
| "join sep (x # y # ys) = x @ sep @ join sep (y # ys)"

text \<open>\<^verbatim>\<open>data.history.slice().reverse().map(item => ...)\<close>: the blocks of the list, in the
  order they are joined.\<close>

definition history_blocks :: "time_format \<Rightarrow> history_payload \<Rightarrow> string list" where
  "history_blocks fmt data = map (history_item fmt) (rev (hp_history data))"

definition renderHistory :: "time_format \<Rightarrow> history_payload \<Rightarrow> ui_state \<Rightarrow> ui_state" where
  \<open>renderHistory fmt data s =
     s\<lparr>historyList :=
         (if length (hp_history data) \<noteq> 0 then join [] (history_blocks fmt data)
          else ''<div class="no-history">No quiz history yet</div>'')\<rparr>\<close>

definition updateScoreDisplays :: "history_payload \<Rightarrow> ui_state \<Rightarrow> ui_state" where
  "updateScoreDisplays data s =
     s\<lparr>scoreDisplay := hp_score data, totalQuestionsDisplay := hp_total_questions data\<rparr>"

definition loadHistory :: "ui_state \<Rightarrow> ui_state" where
  "loadHistory s = s\<lparr>fetching_history := Suc (fetching_history s)\<rparr>"

definition history_settled :: "time_format \<Rightarrow> history_payload response \<Rightarrow> ui_state \<Rightarrow> ui_state" where
  \<open>history_settled fmt r s =
     (let s0 = s\<lparr>fetching_history := fetching_history s - 1\<rparr>
      in case r of
           Payload data \<Rightarrow> updateScoreDisplays data (renderHistory fmt data s0)
         | _ \<Rightarrow> s0\<lparr>historyList := ''<div class="error-message">Failed to load history</div>''\<rparr>)\<close>

subsection \<open>Answers\<close>

definition updateScoreDisplay :: "answer_result \<Rightarrow> ui_state \<Rightarrow> ui_state" where
  "updateScoreDisplay data s =
     s\<lparr>scoreDisplay := a_score data, totalQuestionsDisplay := a_total_questions data\<rparr>"

definition resultMessage :: "answer_result \<Rightarrow> string" where
  "resultMessage data =
     (if a_is_correct data
      then [CHR 0xE2, CHR 0x9C, CHR 0x85] @ '' Correct! The answer is '' @ a_correct_answer data @ ''.''
      else [CHR 0xE2, CHR 0x9D, CHR 0x8C] @ '' Incorrect. The correct answer is '' @
             a_correct_answer data @ ''.'')"

text \<open>The two marks are the UTF-8 bytes of U+2705 and U+274C.\<close>

definition showResultFeedback :: "answer_result \<Rightarrow> string \<Rightarrow> ui_state \<Rightarrow> ui_state" where
  "showResultFeedback data selectedOption s =
     s\<lparr>resultText := resultMessage data,
       resultContainer_hidden := False,
       optionsContainer :=
         forEach_option_button
           (\<lambda>button.
              (if textContent button = a_correct_answer data
               then classList_add ''correct-option'' button
               else if textContent button = selectedOption \<and> \<not> a_is_correct data
               then classList_add ''incorrect-option'' button
               else button)\<lparr>disabled := True\<rparr>)
           (optionsContainer s)\<rparr>"

text \<open>\<^verbatim>\<open>highlightAnswers\<close> queries the whole document; the script creates elements of
  class \<^verbatim>\<open>option-button\<close> only inside the options container.\<close>

definition highlightAnswers :: "string \<Rightarrow> string \<Rightarrow> ui_state \<Rightarrow> ui_state" where
  "highlightAnswers correctAnswer selectedOption s =
     s\<lparr>optionsContainer :=
         forEach_option_button
           (\<lambda>button.
              if textContent button = correctAnswer
              then classList_add ''correct-option'' button
              else if textContent button = selectedOption
              then classList_add ''incorrect-option'' button
              else button)
           (optionsContainer s)\<rparr>"

definition selectAnswer :: "string \<Rightarrow> ui_state \<Rightarrow> ui_state" where
  "selectAnswer selectedOption s =
     (if isLoading s then s
      else (disableOptions s)\<lparr>checking_answer := checking_answer s @ [selectedOption]\<rparr>)"

text \<open>The second \<^verbatim>\<open>.then\<close> callback of \<^verbatim>\<open>selectAnswer\<close>.\<close>

definition answer_then :: "answer_result \<Rightarrow> string \<Rightarrow> ui_state \<Rightarrow> ui_state" where
  "answer_then data selectedOption s =
     (let s1 = updateScoreDisplay data s;
          s2 = showResultFeedback data selectedOption s1;
          s3 = highlightAnswers (a_correct_answer data) selectedOption s2;
          s4 = loadHistory s3;
          s5 = disableOptions (s4\<lparr>questionContainer_hidden := False\<rparr>)
      in s5\<lparr>hintButton_disabled := True, nextButton_disabled := False\<rparr>)"

text \<open>The promise chain of the \<open>k\<close>-th \<^verbatim>\<open>/check_answer\<close> request in flight, from the
  settled request to the end of \<^verbatim>\<open>.catch\<close>.\<close>

definition answer_settled :: "nat \<Rightarrow> answer_result response \<Rightarrow> ui_state \<Rightarrow> ui_state" where
  "answer_settled k r s =
     (let selectedOption = checking_answer s ! k;
          s0 = s\<lparr>checking_answer := take k (checking_answer s) @ drop (Suc k) (checking_answer s)\<rparr>
      in case r of
           Payload data \<Rightarrow> answer_then data selectedOption s0
         | _ \<Rightarrow> showErrorState s0)"

subsection \<open>Events\<close>

text \<open>
  The browser sends no click to a disabled button; nothing else is assumed of a control.
  Where the controls lie in the page and what the class \<^verbatim>\<open>hidden\<close> does to a container
  is written in the markup and the stylesheet, which the script does not decide: a click on
  an enabled control is delivered whatever panel is hidden.
\<close>

definition start_clickable :: "ui_state \<Rightarrow> bool" where
  "start_clickable s = (\<not> startButton_disabled s)"

definition option_clickable :: "nat \<Rightarrow> ui_state \<Rightarrow> bool" where
  "option_clickable i s =
     (i < length (optionsContainer s) \<and> \<not> disabled (optionsContainer s ! i))"

datatype event =
    ClickStart
  | ClickNext
  | ClickHint
  | ClickOption nat
  | QuestionSettled "question_payload response"
  | AnswerSettled nat "answer_result response"
  | HistorySettled "history_payload response"
  | ImageLoaded nat
  | ImageError nat
  | ImageTimeout nat

text \<open>
  One callback run to its end; \<open>None\<close> when the browser cannot deliver the event in this
  state. The listener of the \<open>i\<close>-th option button calls \<^verbatim>\<open>selectAnswer\<close> with the option
  the button was created for, which is its text. An image whose source was cleared fires
  \<^verbatim>\<open>error\<close>, never \<^verbatim>\<open>load\<close>.
\<close>

definition step :: "time_format \<Rightarrow> event \<Rightarrow> ui_state \<Rightarrow> ui_state option" where
  "step fmt e s =
     (case e of
        ClickStart \<Rightarrow> if start_clickable s then Some (startQuiz s) else None
      | ClickNext \<Rightarrow> if nextButton_disabled s then None else Some (loadNextQuestion s)
      | ClickHint \<Rightarrow> if hintButton_disabled s then None else Some (showHint s)
      | ClickOption i \<Rightarrow>
          if option_clickable i s
          then Some (selectAnswer (textContent (optionsContainer s ! i)) s) else None
      | QuestionSettled r \<Rightarrow>
          if 0 < fetching_question s then Some (question_settled r s) else None
      | AnswerSettled k r \<Rightarrow>
          if k < length (checking_answer s) then Some (answer_settled k r s) else None
      | HistorySettled r \<Rightarrow>
          if 0 < fetching_history s then Some (history_settled fmt r s) else None
      | ImageLoaded i \<Rightarrow>
          if i < length (image_loads s) \<and> il_status (image_loads s ! i) = Loading
          then Some (img_onload i s) else None
      | ImageError i \<Rightarrow>
          if i < length (image_loads s) \<and> il_status (image_loads s ! i) \<noteq> Settled
          then Some (img_onerror i s) else None
      | ImageTimeout i \<Rightarrow>
          if i < length (image_loads s) \<and> il_timer (image_loads s ! i) \<noteq> None
          then Some (img_timeout i s) else None)"

fun run :: "time_format \<Rightarrow> event list \<Rightarrow> ui_state \<Rightarrow> ui_state option" where
  "run fmt [] s = Some s"
| "run fmt (e # es) s = (case step fmt e s of None \<Rightarrow> None | Some s' \<Rightarrow> run fmt es s')"

text \<open>
  The page as served, before the script runs, has no option control, no image load and no
  request; the \<^verbatim>\<open>DOMContentLoaded\<close> handler initialises the two variables and calls
  \<^verbatim>\<open>loadHistory\<close>.
\<close>

definition served_page :: "ui_state \<Rightarrow> bool" where
  "served_page s =
     (optionsContainer s = [] \<and> image_loads s = [] \<and> fetching_question s = 0 \<and>
      checking_answer s = [] \<and> fetching_history s = 0)"

definition DOMContentLoaded :: "ui_state \<Rightarrow> ui_state" where
  "DOMContentLoaded s = loadHistory (s\<lparr>currentQuestion := None, isLoading := False\<rparr>)"

definition reachable :: "time_format \<Rightarrow> event list \<Rightarrow> ui_state \<Rightarrow> bool" where
  "reachable fmt es s = (\<exists>page. served_page page \<and> run fmt es (DOMContentLoaded page) = Some s)"

text \<open>
  Modelled from the spec: the HTML page is not under src/. One page that fits the
  script: start panel shown, question and result panels hidden, every button enabled.
\<close>

definition index_page :: ui_state where
  "index_page =
     \<lparr>currentQuestion = None, isLoading = False,
      startButton_disabled = False, nextButton_disabled = False,
      nextButton_text = ''Next Question'', hintButton_disabled = False,
      questionContainer_hidden = True, resultContainer_hidden = True,
      startContainer_hidden = False, questionText = [], optionsContainer = [],
      hintText = [], hintText_hidden = True, resultText = [],
      scoreDisplay = ''0'', totalQuestionsDisplay = ''0'', historyList = [],
      imageContainer = [], image_loads = [],
      fetching_question = 0, checking_answer = [], fetching_history = 0\<rparr>"

subsection \<open>One question cycle\<close>

text \<open>
  A question arrives, the user picks \<open>selectedOption\<close>, and the request that click sent
  settles with \<open>r\<close>: the three callbacks in a row.
\<close>

definition question_cycle ::
  "question \<Rightarrow> string \<Rightarrow> answer_result response \<Rightarrow> ui_state \<Rightarrow> ui_state" where
  "question_cycle q selectedOption r s =
     (let s1 = question_settled (Payload (QuestionPayload q)) s;
          s2 = selectAnswer selectedOption s1
      in answer_settled (length (checking_answer s1)) r s2)"

subsection \<open>Predicates used in the properties\<close>

text \<open>
  What holds in every state the page can reach: at most one question request is in flight,
  the busy flag is set exactly while one is, and every option control carries its class.
\<close>

definition exclusive :: "ui_state \<Rightarrow> bool" where
  "exclusive s =
     (fetching_question s \<le> 1 \<and>
      (isLoading s = (fetching_question s = 1)) \<and>
      list_all (has_class ''option-button'') (optionsContainer s))"

text \<open>A question request that does not deliver a question: every outcome but a question
  payload.\<close>

definition fetch_failed :: "question_payload response \<Rightarrow> bool" where
  "fetch_failed r = (case r of Payload (QuestionPayload q) \<Rightarrow> False | _ \<Rightarrow> True)"


text \<open>The events whose callbacks end in \<^verbatim>\<open>enableButtons\<close>: a settled question request
  (\<^verbatim>\<open>.finally\<close>) and a failed answer request (\<^verbatim>\<open>showErrorState\<close>).\<close>

definition reenables_hint :: "event \<Rightarrow> bool" where
  "reenables_hint e =
     (case e of
        QuestionSettled r \<Rightarrow> True
      | AnswerSettled k r \<Rightarrow> (case r of Payload d \<Rightarrow> False | _ \<Rightarrow> True)
      | _ \<Rightarrow> False)"

text \<open>The \<open>i\<close>-th image can no longer load and is not in the container.\<close>

definition abandoned :: "nat \<Rightarrow> ui_state \<Rightarrow> bool" where
  "abandoned i s =
     (i < length (image_loads s) \<and> il_status (image_loads s ! i) \<noteq> Loading \<and>
      QuestionImage i \<notin> set (imageContainer s))"

subsection \<open>Example data\<close>

definition loaded :: ui_state where
  "loaded = DOMContentLoaded index_page"

definition japan :: question where
  "japan =
     \<lparr>q_question = ''Capital of Japan?'',
      q_options = [''Kyoto'', ''Osaka'', ''Tokyo'', ''Hiroshima''],
      q_correct_answer = ''Tokyo'',
      q_hint = Some ''This city hosted the 2020 Summer Olympics.'',
      q_difficulty = ''easy'', q_image = None\<rparr>"

definition tokyo_result :: "bool \<Rightarrow> answer_result" where
  "tokyo_result ok =
     \<lparr>a_is_correct = ok, a_correct_answer = ''Tokyo'', a_score = (if ok then ''1'' else ''0''),
      a_total_questions = ''1''\<rparr>"


definition fuji :: question where
  "fuji =
     \<lparr>q_question = ''Which mountain is the highest in Japan?'',
      q_options = [''Mount Fuji'', ''Mount Kita'', ''Mount Aso'', ''Mount Tate''],
      q_correct_answer = ''Mount Fuji'', q_hint = None, q_difficulty = ''easy'',
      q_image = Some ''/static/images/fuji.jpg''\<rparr>"

definition two_entries :: history_payload where
  "two_entries =
     \<lparr>hp_history =
        [\<lparr>h_question = ''Capital of Japan?'', h_user_answer = ''Osaka'',
          h_correct_answer = ''Tokyo'', h_difficulty = ''easy'',
          h_timestamp = ''2024-05-01T10:00:00'', h_is_correct = False\<rparr>,
         \<lparr>h_question = ''Which river is the longest in the world?'', h_user_answer = ''Nile'',
          h_correct_answer = ''Nile'', h_difficulty = ''medium'',
          h_timestamp = ''2024-05-01T10:01:00'', h_is_correct = True\<rparr>],
      hp_score = ''1'', hp_total_questions = ''2''\<rparr>"

section \<open>Properties\<close>

lemmas panel_defs = disableButtons_def enableButtons_def showImagePlaceholder_def resetHint_def
  resetUIState_def showLoadingState_def showErrorState_def createOptionButtons_def

lemmas script_defs = panel_defs disableOptions_def forEach_option_button_def has_class_def
  classList_add_def displayImage_def displayQuestion_def loadNextQuestion_def startQuiz_def
  question_then_def question_settled_def hint_of_def showHint_def loadHistory_def
  updateScoreDisplay_def resultMessage_def showResultFeedback_def highlightAnswers_def
  selectAnswer_def answer_then_def answer_settled_def start_clickable_def option_clickable_def
  step_def DOMContentLoaded_def index_page_def truthy_def Let_def

subsection \<open>One question request at a time\<close>

lemma exclusive_loadNextQuestion: "exclusive s \<Longrightarrow> exclusive (loadNextQuestion s)"
  by (auto simp: exclusive_def loadNextQuestion_def panel_defs)

lemma exclusive_showHint: "exclusive s \<Longrightarrow> exclusive (showHint s)"
  by (auto simp: exclusive_def showHint_def split: option.splits)

lemma disabled_forEach:
  "list_all (has_class ''option-button'') bs \<Longrightarrow>
   list_all disabled (forEach_option_button (\<lambda>b. b\<lparr>disabled := True\<rparr>) bs)"
  by (induction bs) (auto simp: forEach_option_button_def)

lemma class_forEach_disable:
  "list_all (has_class c) bs \<Longrightarrow>
   list_all (has_class c) (forEach_option_button (\<lambda>b. b\<lparr>disabled := True\<rparr>) bs)"
  by (induction bs) (auto simp: forEach_option_button_def has_class_def)

lemma exclusive_selectAnswer: "exclusive s \<Longrightarrow> exclusive (selectAnswer t s)"
  by (auto simp: exclusive_def selectAnswer_def disableOptions_def class_forEach_disable)

lemma class_createOptionButtons:
  "list_all (has_class ''option-button'') (optionsContainer (createOptionButtons opts s))"
  by (simp add: createOptionButtons_def list_all_iff has_class_def)

lemma displayImage_frame:
  "optionsContainer (displayImage u s) = optionsContainer s"
  "fetching_question (displayImage u s) = fetching_question s"
  "checking_answer (displayImage u s) = checking_answer s"
  "startContainer_hidden (displayImage u s) = startContainer_hidden s"
  "nextButton_disabled (displayImage u s) = nextButton_disabled s"
  "isLoading (displayImage u s) = isLoading s"
  by (simp_all add: displayImage_def showImagePlaceholder_def split: option.splits)

lemma exclusive_question_settled:
  assumes "exclusive s" "0 < fetching_question s"
  shows "exclusive (question_settled r s)"
proof -
  from assms have f: "fetching_question s = 1"
    by (auto simp: exclusive_def)
  show ?thesis
  proof (cases r)
    case (Payload d)
    show ?thesis
    proof (cases d)
      case (ErrorPayload e)
      with Payload assms f show ?thesis
        by (auto simp: exclusive_def question_settled_def question_then_def Let_def panel_defs)
    next
      case (QuestionPayload q)
      with Payload assms f show ?thesis
        by (auto simp: exclusive_def question_settled_def question_then_def displayQuestion_def
            Let_def displayImage_frame panel_defs list_all_iff has_class_def)
    qed
  qed (use assms f in \<open>auto simp: exclusive_def question_settled_def Let_def panel_defs\<close>)
qed

lemma has_class_simps:
  "has_class c (b\<lparr>disabled := x\<rparr>) = has_class c b"
  "has_class c b \<Longrightarrow> has_class c (classList_add c' b)"
  by (auto simp: has_class_def classList_add_def)

lemma class_forEach:
  "(\<And>b. has_class c b \<Longrightarrow> has_class c (f b)) \<Longrightarrow> list_all (has_class c) bs \<Longrightarrow>
   list_all (has_class c) (forEach_option_button f bs)"
  by (induction bs) (auto simp: forEach_option_button_def)

lemma class_answer_then:
  assumes "list_all (has_class ''option-button'') (optionsContainer s)"
  shows "list_all (has_class ''option-button'') (optionsContainer (answer_then d sel s))"
  using assms
  by (simp add: answer_then_def Let_def disableOptions_def loadHistory_def highlightAnswers_def
      showResultFeedback_def updateScoreDisplay_def class_forEach has_class_simps)

lemma disabled_answer_then:
  assumes "list_all (has_class ''option-button'') (optionsContainer s)"
  shows "list_all disabled (optionsContainer (answer_then d sel s))"
  using assms
  by (simp add: answer_then_def Let_def disableOptions_def loadHistory_def highlightAnswers_def
      showResultFeedback_def updateScoreDisplay_def class_forEach has_class_simps disabled_forEach)

lemma answer_then_frame:
  "fetching_question (answer_then d sel s) = fetching_question s"
  "checking_answer (answer_then d sel s) = checking_answer s"
  "startContainer_hidden (answer_then d sel s) = startContainer_hidden s"
  "isLoading (answer_then d sel s) = isLoading s"
  "length (optionsContainer (answer_then d sel s)) = length (optionsContainer s)"
  by (simp_all add: answer_then_def Let_def disableOptions_def loadHistory_def highlightAnswers_def
      showResultFeedback_def updateScoreDisplay_def forEach_option_button_def)

lemma exclusive_answer_settled:
  assumes "exclusive s"
  shows "exclusive (answer_settled k r s)"
proof (cases r)
  case (Payload d)
  with assms show ?thesis
    by (simp add: exclusive_def answer_settled_def Let_def answer_then_frame class_answer_then)
qed (use assms in \<open>auto simp: exclusive_def answer_settled_def Let_def panel_defs\<close>)

lemma exclusive_history_settled: "exclusive s \<Longrightarrow> exclusive (history_settled fmt r s)"
  by (cases r) (auto simp: exclusive_def history_settled_def Let_def renderHistory_def
      updateScoreDisplays_def)

lemma exclusive_image:
  "exclusive s \<Longrightarrow> exclusive (img_onload i s)"
  "exclusive s \<Longrightarrow> exclusive (img_onerror i s)"
  "exclusive s \<Longrightarrow> exclusive (img_timeout i s)"
  by (auto simp: exclusive_def img_onload_def img_onerror_def img_timeout_def Let_def
      showImagePlaceholder_def)

lemma exclusive_step:
  assumes "exclusive s" "step fmt e s = Some s'"
  shows "exclusive s'"
proof (cases e)
  case ClickStart
  with assms show ?thesis
    by (auto simp: step_def startQuiz_def exclusive_loadNextQuestion split: if_splits)
next
  case ClickNext
  with assms show ?thesis
    by (auto simp: step_def exclusive_loadNextQuestion split: if_splits)
next
  case ClickHint
  with assms show ?thesis
    by (auto simp: step_def exclusive_showHint split: if_splits)
next
  case (ClickOption i)
  with assms show ?thesis
    by (auto simp: step_def exclusive_selectAnswer split: if_splits)
next
  case (QuestionSettled r)
  with assms show ?thesis
    by (auto simp: step_def exclusive_question_settled split: if_splits)
next
  case (AnswerSettled k r)
  with assms show ?thesis
    by (auto simp: step_def exclusive_answer_settled split: if_splits)
next
  case (HistorySettled r)
  with assms show ?thesis
    by (auto simp: step_def exclusive_history_settled split: if_splits)
next
  case (ImageLoaded i)
  with assms show ?thesis
    by (auto simp: step_def exclusive_image split: if_splits)
next
  case (ImageError i)
  with assms show ?thesis
    by (auto simp: step_def exclusive_image split: if_splits)
next
  case (ImageTimeout i)
  with assms show ?thesis
    by (auto simp: step_def exclusive_image split: if_splits)
qed

lemma exclusive_run: "exclusive s \<Longrightarrow> run fmt es s = Some s' \<Longrightarrow> exclusive s'"
  by (induction es arbitrary: s) (auto split: option.splits dest: exclusive_step)

lemma exclusive_DOMContentLoaded: "served_page page \<Longrightarrow> exclusive (DOMContentLoaded page)"
  by (simp add: served_page_def exclusive_def DOMContentLoaded_def loadHistory_def)

lemma exclusive_reachable: "reachable fmt es s \<Longrightarrow> exclusive s"
  by (auto simp: reachable_def intro: exclusive_run exclusive_DOMContentLoaded)

lemma isLoading_question_settled: "\<not> isLoading (question_settled r s)"
  by (simp add: question_settled_def Let_def enableButtons_def)

lemma no_submission_while_loading:
  assumes "isLoading s" "step fmt e s = Some s'"
  shows "length (checking_answer s') \<le> length (checking_answer s)"
proof (cases e)
  case (QuestionSettled r)
  with assms show ?thesis
    by (auto simp: step_def question_settled_def question_then_def displayQuestion_def Let_def
        panel_defs displayImage_frame
        split: if_splits response.splits question_payload.splits)
next
  case (AnswerSettled k r)
  with assms show ?thesis
    by (auto simp: step_def answer_settled_def Let_def answer_then_frame panel_defs
        split: if_splits response.splits)
next
  case (HistorySettled r)
  with assms show ?thesis
    by (auto simp: step_def history_settled_def Let_def renderHistory_def updateScoreDisplays_def
        split: if_splits response.splits)
qed (use assms in \<open>auto simp: step_def startQuiz_def loadNextQuestion_def showHint_def
      selectAnswer_def img_onload_def img_onerror_def img_timeout_def Let_def panel_defs
      split: if_splits option.splits\<close>)

text \<open>
  \<^verbatim>\<open>selectAnswer\<close> tests the busy flag and never sets it, and the callbacks of a settled
  answer request do not touch it: the flag says that a question is loading, not that an
  answer is being checked.
\<close>

lemma selectAnswer_keeps_flag:
  "isLoading (selectAnswer option s) = isLoading s"
  "isLoading (answer_settled k r s) = isLoading s"
  by (cases r; simp add: selectAnswer_def disableOptions_def answer_settled_def Let_def
      answer_then_frame panel_defs)+

text \<open>
  C1 (as amended): in every state the page can reach at most one question request is in
  flight, and no answer request starts while one is: start, next question and select answer
  test the busy flag first and are no-ops while it is set; the flag is set exactly while a
  question request is in flight and is clear after that request settles, whatever the
  outcome. Selecting an answer while the flag is clear disables every option control.
\<close>

theorem question_fetches_exclusive:
  assumes "reachable fmt es s"
  shows "fetching_question s \<le> 1 \<and>
         isLoading s = (fetching_question s = 1) \<and>
         (isLoading s \<longrightarrow>
            startQuiz s = s \<and> loadNextQuestion s = s \<and> (\<forall>option. selectAnswer option s = s)) \<and>
         (\<forall>r. \<not> isLoading (question_settled r s)) \<and>
         (\<forall>e s'. isLoading s \<and> step fmt e s = Some s' \<longrightarrow>
            length (checking_answer s') \<le> length (checking_answer s)) \<and>
         (\<forall>option. \<not> isLoading s \<longrightarrow>
            list_all disabled (optionsContainer (selectAnswer option s)))"
proof -
  have ex: "exclusive s" using assms by (rule exclusive_reachable)
  have a: "fetching_question s \<le> 1" "isLoading s = (fetching_question s = 1)"
    using ex by (simp_all add: exclusive_def)
  have b: "isLoading s \<longrightarrow>
      startQuiz s = s \<and> loadNextQuestion s = s \<and> (\<forall>option. selectAnswer option s = s)"
    by (simp add: startQuiz_def loadNextQuestion_def selectAnswer_def)
  have c: "list_all disabled (optionsContainer (selectAnswer option s))"
    if "\<not> isLoading s" for option
    using ex that by (simp add: exclusive_def selectAnswer_def disableOptions_def disabled_forEach)
  from a b c isLoading_question_settled no_submission_while_loading show ?thesis
    by blast
qed

theorem question_fetches_exclusive_witness:
  "reachable id [ClickStart] (loadNextQuestion loaded) \<and>
   fetching_question (loadNextQuestion loaded) \<le> 1 \<and>
   isLoading (loadNextQuestion loaded) \<and>
   selectAnswer ''Osaka'' (loadNextQuestion loaded) = loadNextQuestion loaded \<and>
   step id (HistorySettled NotOk) (loadNextQuestion loaded) =
     Some (history_settled id NotOk (loadNextQuestion loaded)) \<and>
   length (checking_answer (history_settled id NotOk (loadNextQuestion loaded))) \<le>
     length (checking_answer (loadNextQuestion loaded)) \<and>
   reachable id [ClickStart, QuestionSettled (Payload (QuestionPayload japan))]
     (question_settled (Payload (QuestionPayload japan)) (loadNextQuestion loaded)) \<and>
   \<not> isLoading (question_settled (Payload (QuestionPayload japan)) (loadNextQuestion loaded)) \<and>
   list_all disabled (optionsContainer (selectAnswer ''Osaka''
     (question_settled (Payload (QuestionPayload japan)) (loadNextQuestion loaded))))"
proof -
  let ?s1 = "loadNextQuestion loaded"
  let ?s2 = "question_settled (Payload (QuestionPayload japan)) ?s1"
  have r1: "reachable id [ClickStart] ?s1"
    unfolding reachable_def
    by (rule exI [of _ index_page])
      (simp add: loaded_def served_page_def index_page_def DOMContentLoaded_def loadHistory_def
        step_def start_clickable_def startQuiz_def)
  have l: "isLoading ?s1"
    by (simp add: loaded_def index_page_def DOMContentLoaded_def loadHistory_def
        loadNextQuestion_def panel_defs)
  have st: "step id (HistorySettled NotOk) ?s1 = Some (history_settled id NotOk ?s1)"
    by (simp add: step_def loaded_def index_page_def DOMContentLoaded_def loadHistory_def
        loadNextQuestion_def panel_defs)
  have r2: "reachable id [ClickStart, QuestionSettled (Payload (QuestionPayload japan))] ?s2"
    unfolding reachable_def
    by (rule exI [of _ index_page])
      (simp add: loaded_def served_page_def index_page_def DOMContentLoaded_def loadHistory_def
        step_def start_clickable_def startQuiz_def loadNextQuestion_def panel_defs)
  have n: "\<not> isLoading ?s2" by (rule isLoading_question_settled)
  from question_fetches_exclusive [OF r1] l st
  have a: "fetching_question ?s1 \<le> 1"
    and b: "selectAnswer ''Osaka'' ?s1 = ?s1"
    and c: "length (checking_answer (history_settled id NotOk ?s1)) \<le>
            length (checking_answer ?s1)"
    by blast+
  from question_fetches_exclusive [OF r2] n
  have d: "list_all disabled (optionsContainer (selectAnswer ''Osaka'' ?s2))"
    by blast
  from r1 a l b st c r2 n d show ?thesis by blast
qed

text \<open>
  C1 as stated fails: the busy flag does not cover answer requests. After the first
  question has arrived the start control is enabled (\<^verbatim>\<open>enableButtons\<close>); a click on an
  option sends the answer request and leaves the flag clear, so a click on start is not
  stopped by the flag and sends a question request while the answer request is still in
  flight. When that question arrives its options are enabled, and a click on one sends a
  second answer request while the first is still in flight.
\<close>

theorem fetch_and_submission_in_flight:
  "map_option (\<lambda>s. (isLoading s, fetching_question s, checking_answer s))
     (run id [ClickStart, QuestionSettled (Payload (QuestionPayload japan)), ClickOption 1] loaded) =
     Some (False, 0, [''Osaka'']) \<and>
   map_option (\<lambda>s. (fetching_question s, checking_answer s))
     (run id [ClickStart, QuestionSettled (Payload (QuestionPayload japan)), ClickOption 1,
              ClickStart] loaded) = Some (1, [''Osaka'']) \<and>
   map_option (\<lambda>s. (fetching_question s, checking_answer s))
     (run id [ClickStart, QuestionSettled (Payload (QuestionPayload japan)), ClickOption 1,
              ClickStart, QuestionSettled (Payload (QuestionPayload japan)), ClickOption 0]
        loaded) = Some (0, [''Osaka'', ''Kyoto''])"
  by (simp add: loaded_def japan_def script_defs)

subsection \<open>A failed question request\<close>

lemma next_disabled_question_settled: "nextButton_disabled (question_settled r s)"
  by (simp add: question_settled_def Let_def enableButtons_def)

lemma failed_fetch_error_state:
  assumes "fetch_failed r"
  shows "resultText (question_settled r s) = ''An error occurred. Please try again.''"
    and "\<not> resultContainer_hidden (question_settled r s)"
    and "nextButton_text (question_settled r s) = ''Try Again''"
    and "\<not> startButton_disabled (question_settled r s)"
    and "\<not> hintButton_disabled (question_settled r s)"
    and "currentQuestion (question_settled r s) =
           (if r = Payload (ErrorPayload []) then Some (ErrorPayload []) else currentQuestion s)"
    and "optionsContainer (question_settled r s) =
           (if r = Payload (ErrorPayload []) then [] else optionsContainer s)"
  using assms
  by (auto simp: fetch_failed_def question_settled_def question_then_def Let_def panel_defs
      split: response.splits question_payload.splits)

text \<open>
  C2: a question request that fails shows the generic error state and enables the start and
  hint controls, but the next control is not left clickable. With the reply
  \<^verbatim>\<open>{error: "rate limited"}\<close> to the first request the message is shown, the next
  control is labelled \<^verbatim>\<open>Try Again\<close> and is disabled, so a click on it is not delivered.
  The same holds when the request for a second question fails.
\<close>

theorem failed_fetch_disables_next:
  "map_option resultText
     (run id [ClickStart, QuestionSettled (Payload (ErrorPayload ''rate limited''))] loaded) =
     Some ''An error occurred. Please try again.'' \<and>
   map_option resultContainer_hidden
     (run id [ClickStart, QuestionSettled (Payload (ErrorPayload ''rate limited''))] loaded) =
     Some False \<and>
   map_option nextButton_text
     (run id [ClickStart, QuestionSettled (Payload (ErrorPayload ''rate limited''))] loaded) =
     Some ''Try Again'' \<and>
   map_option nextButton_disabled
     (run id [ClickStart, QuestionSettled (Payload (ErrorPayload ''rate limited''))] loaded) =
     Some True \<and>
   run id [ClickStart, QuestionSettled (Payload (ErrorPayload ''rate limited'')), ClickNext] loaded =
     None \<and>
   map_option nextButton_disabled
     (run id [ClickStart, QuestionSettled (Payload (QuestionPayload japan)), ClickOption 2,
              AnswerSettled 0 (Payload (tokyo_result True)), ClickNext, QuestionSettled NotOk]
        loaded) = Some True \<and>
   run id [ClickStart, QuestionSettled (Payload (QuestionPayload japan)), ClickOption 2,
           AnswerSettled 0 (Payload (tokyo_result True)), ClickNext, QuestionSettled NotOk,
           ClickNext] loaded = None"
  by (simp add: loaded_def japan_def tokyo_result_def script_defs)

subsection \<open>Where the current question comes from\<close>

lemma currentQuestion_step:
  assumes "step fmt e s = Some s'" "currentQuestion s' = Some p"
  shows "currentQuestion s = Some p \<or> e = QuestionSettled (Payload p)"
proof (cases e)
  case (QuestionSettled r)
  with assms show ?thesis
    by (auto simp: step_def question_settled_def question_then_def displayQuestion_def Let_def
        panel_defs displayImage_def
        split: if_splits response.splits question_payload.splits option.splits)
next
  case (AnswerSettled k r)
  with assms show ?thesis
    by (auto simp: step_def answer_settled_def answer_then_def Let_def panel_defs
        disableOptions_def loadHistory_def highlightAnswers_def showResultFeedback_def
        updateScoreDisplay_def split: if_splits response.splits)
next
  case (HistorySettled r)
  with assms show ?thesis
    by (auto simp: step_def history_settled_def Let_def renderHistory_def updateScoreDisplays_def
        split: if_splits response.splits)
qed (use assms in \<open>auto simp: step_def startQuiz_def loadNextQuestion_def showHint_def
      selectAnswer_def disableOptions_def img_onload_def img_onerror_def img_timeout_def
      Let_def panel_defs split: if_splits option.splits\<close>)

lemma currentQuestion_run:
  "run fmt es s = Some s' \<Longrightarrow> currentQuestion s' = Some p \<Longrightarrow>
   currentQuestion s = Some p \<or> QuestionSettled (Payload p) \<in> set es"
proof (induction es arbitrary: s)
  case Nil
  then show ?case by simp
next
  case (Cons e es)
  from Cons.prems(1) obtain s1 where st: "step fmt e s = Some s1" and r: "run fmt es s1 = Some s'"
    by (auto split: option.splits)
  from Cons.IH [OF r Cons.prems(2)] show ?case
    using currentQuestion_step [OF st] by auto
qed

lemma currentQuestion_from_server:
  "reachable fmt es s \<Longrightarrow> currentQuestion s = Some p \<Longrightarrow> QuestionSettled (Payload p) \<in> set es"
  by (auto simp: reachable_def DOMContentLoaded_def loadHistory_def dest!: currentQuestion_run)

text \<open>
  C9: the local fallback questions are never served. A question request that fails ends in
  the generic error state and leaves the current question and the option controls as they
  were (a reply whose \<^verbatim>\<open>error\<close> field is the empty string stores that reply and empties
  the options); and whatever the current question of a reachable state is, the server sent
  it in a reply to a question request, so a fallback question is current only if the server
  itself sent that very question.
\<close>

theorem fallback_questions_never_served:
  "(fetch_failed r \<longrightarrow>
      resultText (question_settled r s) = ''An error occurred. Please try again.'' \<and>
      \<not> resultContainer_hidden (question_settled r s) \<and>
      currentQuestion (question_settled r s) =
        (if r = Payload (ErrorPayload []) then Some (ErrorPayload []) else currentQuestion s) \<and>
      optionsContainer (question_settled r s) =
        (if r = Payload (ErrorPayload []) then [] else optionsContainer s)) \<and>
   (reachable fmt es s' \<and> currentQuestion s' = Some p \<longrightarrow>
      QuestionSettled (Payload p) \<in> set es) \<and>
   (reachable fmt es s' \<and> i < length localFallbackQuestions \<and>
    QuestionSettled (Payload (QuestionPayload (localFallbackQuestions ! i))) \<notin> set es \<longrightarrow>
      currentQuestion s' \<noteq> Some (QuestionPayload (localFallbackQuestions ! i)))"
  using failed_fetch_error_state [of r s] currentQuestion_from_server [of fmt es s']
  by blast

theorem fallback_questions_never_served_witness:
  "fetch_failed (Payload (ErrorPayload ''rate limited'')) \<and>
   resultText (question_settled (Payload (ErrorPayload ''rate limited'')) (loadNextQuestion loaded)) =
     ''An error occurred. Please try again.'' \<and>
   reachable id [ClickStart, QuestionSettled NotOk] (question_settled NotOk (loadNextQuestion loaded)) \<and>
   (1::nat) < length localFallbackQuestions \<and>
   QuestionSettled (Payload (QuestionPayload (localFallbackQuestions ! 1))) \<notin>
     set [ClickStart, QuestionSettled NotOk] \<and>
   currentQuestion (question_settled NotOk (loadNextQuestion loaded)) \<noteq>
     Some (QuestionPayload (localFallbackQuestions ! 1))"
proof -
  have f: "fetch_failed (Payload (ErrorPayload ''rate limited''))"
    by (simp add: fetch_failed_def)
  have r: "reachable id [ClickStart, QuestionSettled NotOk]
             (question_settled NotOk (loadNextQuestion loaded))"
    unfolding reachable_def
    by (rule exI [of _ index_page])
      (simp add: loaded_def served_page_def index_page_def DOMContentLoaded_def loadHistory_def
        step_def start_clickable_def startQuiz_def loadNextQuestion_def panel_defs)
  have n: "(1::nat) < length localFallbackQuestions"
    by (simp add: localFallbackQuestions_def)
  have m: "QuestionSettled (Payload (QuestionPayload (localFallbackQuestions ! 1))) \<notin>
             set [ClickStart, QuestionSettled NotOk]"
    by simp
  note t = fallback_questions_never_served
    [of "Payload (ErrorPayload ''rate limited'')" "loadNextQuestion loaded" id
      "[ClickStart, QuestionSettled NotOk]" "question_settled NotOk (loadNextQuestion loaded)"
      _ 1]
  from t f have a: "resultText (question_settled (Payload (ErrorPayload ''rate limited''))
      (loadNextQuestion loaded)) = ''An error occurred. Please try again.''"
    by blast
  from t r n m have b: "currentQuestion (question_settled NotOk (loadNextQuestion loaded)) \<noteq>
     Some (QuestionPayload (localFallbackQuestions ! 1))"
    by blast
  from f a r n m b show ?thesis by blast
qed

subsection \<open>The hint\<close>

text \<open>
  C10: with no current question (\<^verbatim>\<open>null\<close>) the optional access yields no hint and
  \<^verbatim>\<open>showHint\<close> returns the state unchanged; this is the case in every reachable state
  before the server has delivered a question.
\<close>

theorem hint_before_first_question:
  "(currentQuestion s = None \<longrightarrow> hint_of (currentQuestion s) = None \<and> showHint s = s) \<and>
   (reachable fmt es s \<and> (\<forall>q. QuestionSettled (Payload (QuestionPayload q)) \<notin> set es) \<longrightarrow>
      hint_of (currentQuestion s) = None \<and> showHint s = s)"
proof -
  have a: "hint_of (currentQuestion s) = None \<Longrightarrow> showHint s = s"
    by (simp add: showHint_def)
  have b: "hint_of (currentQuestion s) = None"
    if "reachable fmt es s" "\<forall>q. QuestionSettled (Payload (QuestionPayload q)) \<notin> set es"
  proof (cases "currentQuestion s")
    case None
    then show ?thesis by (simp add: hint_of_def)
  next
    case (Some p)
    with that(1) have "QuestionSettled (Payload p) \<in> set es"
      by (rule currentQuestion_from_server)
    with that(2) obtain e where "p = ErrorPayload e" by (cases p) auto
    with Some show ?thesis by (simp add: hint_of_def)
  qed
  show ?thesis using a b by (auto simp: hint_of_def)
qed

theorem hint_before_first_question_witness:
  "currentQuestion loaded = None \<and> showHint loaded = loaded \<and>
   reachable id [ClickStart, QuestionSettled NotOk] (question_settled NotOk (loadNextQuestion loaded)) \<and>
   showHint (question_settled NotOk (loadNextQuestion loaded)) =
     question_settled NotOk (loadNextQuestion loaded)"
proof -
  have c: "currentQuestion loaded = None"
    by (simp add: loaded_def DOMContentLoaded_def loadHistory_def)
  have r: "reachable id [ClickStart, QuestionSettled NotOk]
             (question_settled NotOk (loadNextQuestion loaded))"
    unfolding reachable_def
    by (rule exI [of _ index_page])
      (simp add: loaded_def served_page_def index_page_def DOMContentLoaded_def loadHistory_def
        step_def start_clickable_def startQuiz_def loadNextQuestion_def panel_defs)
  have m: "\<forall>q. QuestionSettled (Payload (QuestionPayload q)) \<notin>
             set [ClickStart, QuestionSettled NotOk]"
    by simp
  from hint_before_first_question [of loaded] c have a: "showHint loaded = loaded"
    by blast
  from hint_before_first_question
    [of "question_settled NotOk (loadNextQuestion loaded)" id "[ClickStart, QuestionSettled NotOk]"]
    r m
  have b: "showHint (question_settled NotOk (loadNextQuestion loaded)) =
     question_settled NotOk (loadNextQuestion loaded)"
    by blast
  from c a r b show ?thesis by blast
qed

lemma hint_stays_disabled:
  assumes "hintButton_disabled s" "step fmt e s = Some s'" "\<not> reenables_hint e"
  shows "hintButton_disabled s'"
proof (cases e)
  case (AnswerSettled k r)
  with assms obtain d where "r = Payload d"
    by (cases r) (auto simp: reenables_hint_def)
  with AnswerSettled assms show ?thesis
    by (auto simp: step_def answer_settled_def answer_then_def Let_def split: if_splits)
next
  case (HistorySettled r)
  with assms show ?thesis
    by (auto simp: step_def history_settled_def Let_def renderHistory_def updateScoreDisplays_def
        split: if_splits response.splits)
qed (use assms in \<open>auto simp: step_def reenables_hint_def startQuiz_def loadNextQuestion_def
      showHint_def selectAnswer_def disableOptions_def img_onload_def img_onerror_def
      img_timeout_def Let_def panel_defs split: if_splits option.splits\<close>)

lemma hint_reenabled:
  assumes "reenables_hint e" "step fmt e s = Some s'"
  shows "\<not> hintButton_disabled s'"
proof (cases e)
  case (QuestionSettled r)
  with assms show ?thesis
    by (auto simp: step_def question_settled_def Let_def enableButtons_def split: if_splits)
next
  case (AnswerSettled k r)
  with assms show ?thesis
    by (cases r) (auto simp: step_def reenables_hint_def answer_settled_def Let_def panel_defs
        split: if_splits)
qed (use assms in \<open>simp_all add: reenables_hint_def\<close>)

lemma currentQuestion_answer_settled:
  "currentQuestion (answer_settled k r s) = currentQuestion s"
  by (cases r) (simp_all add: answer_settled_def answer_then_def Let_def panel_defs
      disableOptions_def loadHistory_def highlightAnswers_def showResultFeedback_def
      updateScoreDisplay_def)

text \<open>
  C7 (as amended): on a current question with a non-empty hint, \<^verbatim>\<open>showHint\<close> reveals
  the hint text and disables the hint control; on a current question without one (absent,
  \<^verbatim>\<open>null\<close> or empty) it changes nothing. A disabled hint control gets no click, and it
  stays disabled through every event except a settled question request and a failed answer
  request; each of these two enables it. A settled answer request leaves the current
  question as it is, so after a failed one the hint of the same question can be used again.
\<close>

theorem hint_once_until_reenabled:
  "(hint_of (currentQuestion s) = Some h \<and> h \<noteq> [] \<longrightarrow>
      showHint s = s\<lparr>hintText := h, hintText_hidden := False, hintButton_disabled := True\<rparr>) \<and>
   (\<not> truthy (hint_of (currentQuestion s)) \<longrightarrow> showHint s = s) \<and>
   (hintButton_disabled s \<longrightarrow> step fmt ClickHint s = None) \<and>
   (hintButton_disabled s \<and> step fmt e s = Some s' \<and> \<not> reenables_hint e \<longrightarrow>
      hintButton_disabled s') \<and>
   (reenables_hint e \<and> step fmt e s = Some s' \<longrightarrow> \<not> hintButton_disabled s') \<and>
   (step fmt (AnswerSettled k r) s = Some s' \<longrightarrow> currentQuestion s' = currentQuestion s)"
proof -
  have a: "step fmt (AnswerSettled k r) s = Some s' \<longrightarrow> currentQuestion s' = currentQuestion s"
    by (auto simp: step_def currentQuestion_answer_settled split: if_splits)
  show ?thesis
    using hint_stays_disabled [of s fmt e s'] hint_reenabled [of e fmt s s'] a
    by (auto simp: showHint_def truthy_def step_def split: option.splits)
qed

theorem hint_once_until_reenabled_witness:
  "hint_of (currentQuestion (question_settled (Payload (QuestionPayload japan)) (loadNextQuestion loaded))) =
     Some ''This city hosted the 2020 Summer Olympics.'' \<and>
   hintText (showHint (question_settled (Payload (QuestionPayload japan)) (loadNextQuestion loaded))) =
     ''This city hosted the 2020 Summer Olympics.'' \<and>
   hintButton_disabled
     (showHint (question_settled (Payload (QuestionPayload japan)) (loadNextQuestion loaded))) \<and>
   step id ClickHint
     (showHint (question_settled (Payload (QuestionPayload japan)) (loadNextQuestion loaded))) = None \<and>
   step id (HistorySettled NotOk)
     (showHint (question_settled (Payload (QuestionPayload japan)) (loadNextQuestion loaded))) =
     Some (history_settled id NotOk
       (showHint (question_settled (Payload (QuestionPayload japan)) (loadNextQuestion loaded)))) \<and>
   \<not> reenables_hint (HistorySettled NotOk) \<and>
   hintButton_disabled (history_settled id NotOk
     (showHint (question_settled (Payload (QuestionPayload japan)) (loadNextQuestion loaded)))) \<and>
   reenables_hint (AnswerSettled 0 Rejected) \<and>
   step id (AnswerSettled 0 Rejected)
     (selectAnswer ''Osaka''
       (showHint (question_settled (Payload (QuestionPayload japan)) (loadNextQuestion loaded)))) =
     Some (answer_settled 0 Rejected (selectAnswer ''Osaka''
       (showHint (question_settled (Payload (QuestionPayload japan)) (loadNextQuestion loaded))))) \<and>
   \<not> hintButton_disabled (answer_settled 0 Rejected (selectAnswer ''Osaka''
       (showHint (question_settled (Payload (QuestionPayload japan)) (loadNextQuestion loaded))))) \<and>
   currentQuestion (answer_settled 0 Rejected (selectAnswer ''Osaka''
       (showHint (question_settled (Payload (QuestionPayload japan)) (loadNextQuestion loaded))))) =
     currentQuestion (selectAnswer ''Osaka''
       (showHint (question_settled (Payload (QuestionPayload japan)) (loadNextQuestion loaded)))) \<and>
   \<not> truthy (hint_of (currentQuestion loaded)) \<and> showHint loaded = loaded"
proof -
  let ?s = "question_settled (Payload (QuestionPayload japan)) (loadNextQuestion loaded)"
  let ?h = "''This city hosted the 2020 Summer Olympics.''"
  let ?s3 = "selectAnswer ''Osaka'' (showHint ?s)"
  have h: "hint_of (currentQuestion ?s) = Some ?h"
    by (simp add: question_settled_def question_then_def displayQuestion_def Let_def panel_defs
        japan_def hint_of_def truthy_def)
  have ne: "?h \<noteq> []" by simp
  from hint_once_until_reenabled [of ?s ?h] h ne
  have eq: "showHint ?s = ?s\<lparr>hintText := ?h, hintText_hidden := False, hintButton_disabled := True\<rparr>"
    by blast
  then have a: "hintText (showHint ?s) = ?h" and b: "hintButton_disabled (showHint ?s)"
    by simp_all
  from hint_once_until_reenabled [of "showHint ?s" _ id] b
  have c: "step id ClickHint (showHint ?s) = None"
    by blast
  have "0 < fetching_history (showHint ?s)"
    unfolding eq
    by (simp add: question_settled_def question_then_def displayQuestion_def Let_def panel_defs
        japan_def truthy_def loadNextQuestion_def loaded_def DOMContentLoaded_def loadHistory_def
        index_page_def)
  then have st: "step id (HistorySettled NotOk) (showHint ?s) =
      Some (history_settled id NotOk (showHint ?s))"
    by (simp add: step_def)
  have nr: "\<not> reenables_hint (HistorySettled NotOk)"
    by (simp add: reenables_hint_def)
  from hint_once_until_reenabled
    [of "showHint ?s" _ id "HistorySettled NotOk" "history_settled id NotOk (showHint ?s)"] b st nr
  have k: "hintButton_disabled (history_settled id NotOk (showHint ?s))"
    by blast
  have re: "reenables_hint (AnswerSettled 0 Rejected)"
    by (simp add: reenables_hint_def)
  have "\<not> isLoading (showHint ?s)"
    unfolding eq by (simp add: isLoading_question_settled)
  then have "0 < length (checking_answer ?s3)"
    by (simp add: selectAnswer_def disableOptions_def)
  then have st3: "step id (AnswerSettled 0 Rejected) ?s3 = Some (answer_settled 0 Rejected ?s3)"
    by (simp add: step_def)
  from hint_once_until_reenabled
    [of ?s3 _ id "AnswerSettled 0 Rejected" "answer_settled 0 Rejected ?s3" 0 Rejected] re st3
  have m: "\<not> hintButton_disabled (answer_settled 0 Rejected ?s3)"
    and n: "currentQuestion (answer_settled 0 Rejected ?s3) = currentQuestion ?s3"
    by blast+
  have d: "\<not> truthy (hint_of (currentQuestion loaded))"
    by (simp add: loaded_def DOMContentLoaded_def loadHistory_def hint_of_def truthy_def)
  from hint_once_until_reenabled [of loaded] d have e: "showHint loaded = loaded"
    by blast
  from h a b c st nr k re st3 m n d e show ?thesis by blast
qed

text \<open>
  C7 as stated fails: the hint of one question can be used twice. After the hint was shown
  for the Japan question and the answer request of that question is rejected, the error
  state enables the hint control again, the current question is still the same, and a
  second click on the hint control is delivered.
\<close>

theorem hint_used_twice_on_one_question:
  "map_option hintButton_disabled
     (run id [ClickStart, QuestionSettled (Payload (QuestionPayload japan)), ClickHint] loaded) =
     Some True \<and>
   map_option (\<lambda>s. (currentQuestion s, hintButton_disabled s, hintText_hidden s))
     (run id [ClickStart, QuestionSettled (Payload (QuestionPayload japan)), ClickHint,
              ClickOption 1, AnswerSettled 0 Rejected] loaded) =
     Some (Some (QuestionPayload japan), False, False) \<and>
   map_option (\<lambda>s. (currentQuestion s, hintButton_disabled s, hintText s))
     (run id [ClickStart, QuestionSettled (Payload (QuestionPayload japan)), ClickHint,
              ClickOption 1, AnswerSettled 0 Rejected, ClickHint] loaded) =
     Some (Some (QuestionPayload japan), True, ''This city hosted the 2020 Summer Olympics.'')"
  by (simp add: loaded_def japan_def script_defs)

subsection \<open>Selecting an answer\<close>

text \<open>
  C3: selecting an answer disables every option control, and a successful answer request
  enables the next control; but when the answer request fails the next control is never
  enabled in that cycle: it is disabled after the question arrives, after the click, and
  after the rejected request, where it is labelled \<^verbatim>\<open>Try Again\<close> and a click on it is
  not delivered.
\<close>

theorem failed_submission_keeps_next_disabled:
  "map_option nextButton_disabled
     (run id [ClickStart, QuestionSettled (Payload (QuestionPayload japan))] loaded) = Some True \<and>
   map_option nextButton_disabled
     (run id [ClickStart, QuestionSettled (Payload (QuestionPayload japan)), ClickOption 1] loaded) =
     Some True \<and>
   map_option nextButton_disabled
     (run id [ClickStart, QuestionSettled (Payload (QuestionPayload japan)), ClickOption 1,
              AnswerSettled 0 Rejected] loaded) = Some True \<and>
   map_option (list_all disabled \<circ> optionsContainer)
     (run id [ClickStart, QuestionSettled (Payload (QuestionPayload japan)), ClickOption 1,
              AnswerSettled 0 Rejected] loaded) = Some True \<and>
   map_option nextButton_text
     (run id [ClickStart, QuestionSettled (Payload (QuestionPayload japan)), ClickOption 1,
              AnswerSettled 0 Rejected] loaded) = Some ''Try Again'' \<and>
   run id [ClickStart, QuestionSettled (Payload (QuestionPayload japan)), ClickOption 1,
           AnswerSettled 0 Rejected, ClickNext] loaded = None \<and>
   map_option nextButton_disabled
     (run id [ClickStart, QuestionSettled (Payload (QuestionPayload japan)), ClickOption 1,
              AnswerSettled 0 (Payload (tokyo_result False))] loaded) = Some False"
  by (simp add: loaded_def japan_def tokyo_result_def script_defs)

lemma question_settled_ok_options:
  "optionsContainer (question_settled (Payload (QuestionPayload q)) s) =
     map (\<lambda>option. \<lparr>textContent = option, classList = [''option-button''], disabled = False\<rparr>)
       (q_options q)"
  "\<not> isLoading (question_settled r s)"
  by (simp_all add: question_settled_def question_then_def displayQuestion_def Let_def panel_defs
      displayImage_def split: option.splits)

lemma answer_settled_last:
  "answer_settled (length (checking_answer s)) r (selectAnswer sel s) =
     (if isLoading s then answer_settled (length (checking_answer s)) r s
      else (case r of Payload data \<Rightarrow> answer_then data sel (disableOptions s)
            | _ \<Rightarrow> showErrorState (disableOptions s)))"
  by (cases r) (simp_all add: answer_settled_def selectAnswer_def Let_def disableOptions_def)


lemma answer_then_fields:
  "resultText (answer_then d sel s) = resultMessage d"
  "optionsContainer (answer_then d sel s) =
     forEach_option_button (\<lambda>b. b\<lparr>disabled := True\<rparr>)
       (optionsContainer (highlightAnswers (a_correct_answer d) sel (showResultFeedback d sel s)))"
  by (simp_all add: answer_then_def Let_def disableOptions_def loadHistory_def
      highlightAnswers_def showResultFeedback_def updateScoreDisplay_def)

lemma question_cycle_ok:
  "question_cycle q sel (Payload d) s =
     answer_then d sel (disableOptions (question_settled (Payload (QuestionPayload q)) s))"
  by (simp add: question_cycle_def Let_def answer_settled_last question_settled_ok_options)

text \<open>
  C5: for the question "Capital of Japan?" with options Kyoto, Osaka, Tokyo, Hiroshima,
  selecting Osaka and a reply with \<^verbatim>\<open>is_correct = false\<close> and correct answer Tokyo gives
  the result message "(cross mark) Incorrect. The correct answer is Tokyo.", the class
  \<^verbatim>\<open>correct-option\<close> on the Tokyo control and \<^verbatim>\<open>incorrect-option\<close> on the Osaka
  control, and no mark on the other two.
\<close>

theorem capital_of_japan_osaka:
  "resultText
     (question_cycle
        \<lparr>q_question = ''Capital of Japan?'',
         q_options = [''Kyoto'', ''Osaka'', ''Tokyo'', ''Hiroshima''],
         q_correct_answer = ''Tokyo'', q_hint = h, q_difficulty = d, q_image = im\<rparr>
        ''Osaka''
        (Payload \<lparr>a_is_correct = False, a_correct_answer = ''Tokyo'', a_score = sc,
                  a_total_questions = n\<rparr>) s) =
     [CHR 0xE2, CHR 0x9D, CHR 0x8C] @ '' Incorrect. The correct answer is Tokyo.'' \<and>
   map (\<lambda>b. (textContent b, classList b))
     (optionsContainer
       (question_cycle
          \<lparr>q_question = ''Capital of Japan?'',
           q_options = [''Kyoto'', ''Osaka'', ''Tokyo'', ''Hiroshima''],
           q_correct_answer = ''Tokyo'', q_hint = h, q_difficulty = d, q_image = im\<rparr>
          ''Osaka''
          (Payload \<lparr>a_is_correct = False, a_correct_answer = ''Tokyo'', a_score = sc,
                    a_total_questions = n\<rparr>) s)) =
     [(''Kyoto'', [''option-button'']),
      (''Osaka'', [''option-button'', ''incorrect-option'']),
      (''Tokyo'', [''option-button'', ''correct-option'']),
      (''Hiroshima'', [''option-button''])]"
  by (simp add: question_cycle_ok question_settled_ok_options answer_then_fields
      disableOptions_def highlightAnswers_def showResultFeedback_def resultMessage_def
      forEach_option_button_def classList_add_def has_class_def)






subsection \<open>Image loading\<close>

lemma abandoned_step:
  assumes "abandoned i s" "step fmt e s = Some s'"
  shows "abandoned i s'"
proof (cases e)
  case (QuestionSettled r)
  with assms show ?thesis
    by (auto simp: abandoned_def step_def question_settled_def question_then_def
        displayQuestion_def Let_def panel_defs displayImage_def nth_append
        split: if_splits response.splits question_payload.splits option.splits)
next
  case (AnswerSettled k r)
  with assms show ?thesis
    by (auto simp: abandoned_def step_def answer_settled_def answer_then_def Let_def panel_defs
        disableOptions_def loadHistory_def highlightAnswers_def showResultFeedback_def
        updateScoreDisplay_def split: if_splits response.splits)
next
  case (HistorySettled r)
  with assms show ?thesis
    by (auto simp: abandoned_def step_def history_settled_def Let_def renderHistory_def
        updateScoreDisplays_def split: if_splits response.splits)
next
  case (ImageLoaded j)
  with assms have "j \<noteq> i" by (auto simp: abandoned_def step_def split: if_splits)
  with ImageLoaded assms show ?thesis
    by (auto simp: abandoned_def step_def img_onload_def remove_spinner_def
        split: if_splits dest: notin_set_remove1)
next
  case (ImageError j)
  with assms show ?thesis
    by (cases "j = i") (auto simp: abandoned_def step_def img_onerror_def panel_defs
        split: if_splits)
next
  case (ImageTimeout j)
  with assms show ?thesis
    by (cases "j = i") (auto simp: abandoned_def step_def img_timeout_def Let_def panel_defs
        split: if_splits)
qed (use assms in \<open>auto simp: abandoned_def step_def startQuiz_def loadNextQuestion_def
      showHint_def selectAnswer_def disableOptions_def Let_def panel_defs
      split: if_splits option.splits\<close>)

lemma abandoned_run: "abandoned i s \<Longrightarrow> run fmt es s = Some s' \<Longrightarrow> abandoned i s'"
  by (induction es arbitrary: s) (auto split: option.splits dest: abandoned_step)

lemma abandoned_img_timeout:
  "i < length (image_loads s) \<Longrightarrow> Spinner i \<in> set (imageContainer s) \<Longrightarrow>
   abandoned i (img_timeout i s)"
  by (simp add: abandoned_def img_timeout_def Let_def panel_defs)

text \<open>
  What the image callbacks do. Without a URL the placeholder is shown at once and no load
  starts; with one, the spinner is shown and a timeout of 5000 ms is set. When the load
  fails the spinner is gone and the placeholder is shown. When the timeout fires while the
  spinner of this load is still in the container, the spinner is removed, the placeholder
  is shown and the image source is cleared, after which the image cannot load and never
  enters the container. When the spinner is no longer in the container, the timeout
  callback changes neither the container nor the image.
\<close>

theorem image_fallback:
  "(\<not> truthy url \<longrightarrow>
      imageContainer (displayImage url s) = [Placeholder] \<and>
      image_loads (displayImage url s) = image_loads s) \<and>
   (\<not> truthy (q_image q) \<longrightarrow>
      imageContainer (displayQuestion q s) = [Placeholder] \<and>
      image_loads (displayQuestion q s) = image_loads s) \<and>
   (u \<noteq> [] \<longrightarrow>
      imageContainer (displayImage (Some u) s) = [Spinner (length (image_loads s))] \<and>
      image_loads (displayImage (Some u) s) =
        image_loads s @ [\<lparr>il_src = u, il_status = Loading, il_timer = Some 5000\<rparr>]) \<and>
   imageContainer (img_onerror i s) = [Placeholder] \<and>
   (i < length (image_loads s) \<and> Spinner i \<in> set (imageContainer s) \<longrightarrow>
      imageContainer (img_timeout i s) = [Placeholder] \<and>
      il_src (image_loads (img_timeout i s) ! i) = [] \<and>
      il_status (image_loads (img_timeout i s) ! i) = Cancelled \<and>
      step fmt (ImageLoaded i) (img_timeout i s) = None \<and>
      (\<forall>es s'. run fmt es (img_timeout i s) = Some s' \<longrightarrow>
         QuestionImage i \<notin> set (imageContainer s'))) \<and>
   (i < length (image_loads s) \<and> Spinner i \<notin> set (imageContainer s) \<longrightarrow>
      imageContainer (img_timeout i s) = imageContainer s \<and>
      il_src (image_loads (img_timeout i s) ! i) = il_src (image_loads s ! i) \<and>
      il_status (image_loads (img_timeout i s) ! i) = il_status (image_loads s ! i))"
proof -
  have late: "QuestionImage i \<notin> set (imageContainer s')"
    if "i < length (image_loads s)" "Spinner i \<in> set (imageContainer s)"
      "run fmt es (img_timeout i s) = Some s'" for es s'
    using abandoned_run [OF abandoned_img_timeout [OF that(1,2)] that(3)]
    by (simp add: abandoned_def)
  have a: "\<not> truthy url \<longrightarrow>
      imageContainer (displayImage url s) = [Placeholder] \<and>
      image_loads (displayImage url s) = image_loads s"
    by (auto simp: truthy_def displayImage_def panel_defs split: option.splits)
  have b: "\<not> truthy (q_image q) \<longrightarrow>
      imageContainer (displayQuestion q s) = [Placeholder] \<and>
      image_loads (displayQuestion q s) = image_loads s"
    by (simp add: displayQuestion_def Let_def panel_defs)
  have c: "u \<noteq> [] \<longrightarrow>
      imageContainer (displayImage (Some u) s) = [Spinner (length (image_loads s))] \<and>
      image_loads (displayImage (Some u) s) =
        image_loads s @ [\<lparr>il_src = u, il_status = Loading, il_timer = Some 5000\<rparr>]"
    by (simp add: displayImage_def)
  have d: "imageContainer (img_onerror i s) = [Placeholder]"
    by (simp add: img_onerror_def panel_defs)
  have e: "i < length (image_loads s) \<and> Spinner i \<in> set (imageContainer s) \<longrightarrow>
      imageContainer (img_timeout i s) = [Placeholder] \<and>
      il_src (image_loads (img_timeout i s) ! i) = [] \<and>
      il_status (image_loads (img_timeout i s) ! i) = Cancelled \<and>
      step fmt (ImageLoaded i) (img_timeout i s) = None"
    by (simp add: img_timeout_def Let_def panel_defs step_def)
  have f: "i < length (image_loads s) \<and> Spinner i \<notin> set (imageContainer s) \<longrightarrow>
      imageContainer (img_timeout i s) = imageContainer s \<and>
      il_src (image_loads (img_timeout i s) ! i) = il_src (image_loads s ! i) \<and>
      il_status (image_loads (img_timeout i s) ! i) = il_status (image_loads s ! i)"
    by (simp add: img_timeout_def Let_def)
  from a b c d e f late show ?thesis by blast
qed

theorem image_fallback_witness:
  "\<not> truthy None \<and> imageContainer (displayImage None loaded) = [Placeholder] \<and>
   ''/static/images/fuji.jpg'' \<noteq> [] \<and>
   imageContainer (displayImage (Some ''/static/images/fuji.jpg'') loaded) = [Spinner 0] \<and>
   0 < length (image_loads (displayImage (Some ''/static/images/fuji.jpg'') loaded)) \<and>
   Spinner 0 \<in> set (imageContainer (displayImage (Some ''/static/images/fuji.jpg'') loaded)) \<and>
   imageContainer (img_timeout 0 (displayImage (Some ''/static/images/fuji.jpg'') loaded)) =
     [Placeholder] \<and>
   il_src (image_loads (img_timeout 0 (displayImage (Some ''/static/images/fuji.jpg'') loaded)) ! 0) =
     [] \<and>
   Spinner 0 \<notin> set (imageContainer
     (showImagePlaceholder (displayImage (Some ''/static/images/fuji.jpg'') loaded))) \<and>
   il_src (image_loads (img_timeout 0
     (showImagePlaceholder (displayImage (Some ''/static/images/fuji.jpg'') loaded))) ! 0) =
     ''/static/images/fuji.jpg''"
proof -
  let ?u = "''/static/images/fuji.jpg''"
  let ?s = "displayImage (Some ?u) loaded"
  have l0: "image_loads loaded = []"
    by (simp add: loaded_def DOMContentLoaded_def loadHistory_def index_page_def)
  have t: "\<not> truthy None" by (simp add: truthy_def)
  have ne: "?u \<noteq> []" by simp
  from image_fallback [of None loaded] t
  have a: "imageContainer (displayImage None loaded) = [Placeholder]" by blast
  from image_fallback [of _ loaded _ ?u] ne
  have b: "imageContainer ?s = [Spinner (length (image_loads loaded))]"
    and b': "image_loads ?s =
      image_loads loaded @ [\<lparr>il_src = ?u, il_status = Loading, il_timer = Some 5000\<rparr>]"
    by blast+
  from b l0 have c: "imageContainer ?s = [Spinner 0]" by simp
  from b' l0 have d: "0 < length (image_loads ?s)" by simp
  from c have e: "Spinner 0 \<in> set (imageContainer ?s)" by simp
  from image_fallback [of _ ?s _ _ 0] d e
  have f: "imageContainer (img_timeout 0 ?s) = [Placeholder]"
    and g: "il_src (image_loads (img_timeout 0 ?s) ! 0) = []"
    by blast+
  have d': "0 < length (image_loads (showImagePlaceholder ?s))"
    using d by (simp add: showImagePlaceholder_def)
  have h: "Spinner 0 \<notin> set (imageContainer (showImagePlaceholder ?s))"
    by (simp add: showImagePlaceholder_def)
  from image_fallback [of _ "showImagePlaceholder ?s" _ _ 0] d' h
  have "il_src (image_loads (img_timeout 0 (showImagePlaceholder ?s)) ! 0) =
        il_src (image_loads (showImagePlaceholder ?s) ! 0)"
    by blast
  with b' l0 have i: "il_src (image_loads (img_timeout 0 (showImagePlaceholder ?s)) ! 0) = ?u"
    by (simp add: showImagePlaceholder_def)
  from t a ne c d e f g h i show ?thesis by blast
qed

text \<open>
  C8: a load that does not complete within the timeout is to be abandoned, its source
  cleared, so that the late image cannot replace the placeholder. The script misses this
  when the container was reset before the timeout fires. The first question has an image
  that is slow; the user answers and asks for the next question, which removes the spinner;
  the timeout callback, which cancels the load only under the test that the spinner is
  still in the container, finds none and leaves the source in place; the second question
  has no image and shows the placeholder; when the first image arrives, its
  \<^verbatim>\<open>onload\<close> puts it into the container after the placeholder of the second question.
\<close>

theorem late_image_after_timeout:
  "map_option (map il_src \<circ> image_loads)
     (run id [ClickStart, QuestionSettled (Payload (QuestionPayload fuji)), ClickOption 0,
              AnswerSettled 0 (Payload \<lparr>a_is_correct = True, a_correct_answer = ''Mount Fuji'',
                                        a_score = ''1'', a_total_questions = ''1''\<rparr>),
              ClickNext, ImageTimeout 0] loaded) = Some [''/static/images/fuji.jpg''] \<and>
   map_option imageContainer
     (run id [ClickStart, QuestionSettled (Payload (QuestionPayload fuji)), ClickOption 0,
              AnswerSettled 0 (Payload \<lparr>a_is_correct = True, a_correct_answer = ''Mount Fuji'',
                                        a_score = ''1'', a_total_questions = ''1''\<rparr>),
              ClickNext, ImageTimeout 0, QuestionSettled (Payload (QuestionPayload japan)),
              ImageLoaded 0] loaded) = Some [Placeholder, QuestionImage 0]"
  by (simp add: loaded_def japan_def fuji_def script_defs img_timeout_def img_onload_def
      remove_spinner_def)

subsection \<open>History\<close>

lemma join_empty_sep: "join [] xs = concat xs"
proof (induction xs)
  case Nil
  show ?case by simp
next
  case (Cons x xs)
  then show ?case by (cases xs) simp_all
qed

lemma sublist_skip: "sublist xs ys \<Longrightarrow> sublist xs (zs @ ys)"
  by (metis append.assoc sublist_def)

lemma history_item_shows:
  "sublist (h_question item) (history_item fmt item)"
  "sublist (h_user_answer item) (history_item fmt item)"
  "sublist (h_correct_answer item) (history_item fmt item)"
  "sublist (h_difficulty item) (history_item fmt item)"
  "sublist (fmt (h_timestamp item)) (history_item fmt item)"
  unfolding history_item_def
  by (rule sublist_append_rightI | rule sublist_skip)+

text \<open>
  C6: for every history payload the rendered list is the blocks of the server's entries in
  reverse order, newest first: block \<open>i\<close> renders entry \<open>n - 1 - i\<close>, and the markup is
  the blocks joined (the "no history" message when there is no entry). Every block contains
  the entry's question, the user's answer, the correct answer, the difficulty and the time
  as \<^verbatim>\<open>toLocaleTimeString\<close> prints it.
\<close>

theorem history_newest_first:
  \<open>historyList (renderHistory fmt data s) =
     (if hp_history data = [] then ''<div class="no-history">No quiz history yet</div>''
      else concat (map (history_item fmt) (rev (hp_history data)))) \<and>
   historyList (history_settled fmt (Payload data) s) = historyList (renderHistory fmt data s) \<and>
   length (history_blocks fmt data) = length (hp_history data) \<and>
   (\<forall>i < length (hp_history data).
      history_blocks fmt data ! i =
        history_item fmt (hp_history data ! (length (hp_history data) - 1 - i))) \<and>
   (\<forall>item. sublist (h_question item) (history_item fmt item) \<and>
           sublist (h_user_answer item) (history_item fmt item) \<and>
           sublist (h_correct_answer item) (history_item fmt item) \<and>
           sublist (h_difficulty item) (history_item fmt item) \<and>
           sublist (fmt (h_timestamp item)) (history_item fmt item))\<close>
proof -
  have a: \<open>historyList (renderHistory fmt data s) =
     (if hp_history data = [] then ''<div class="no-history">No quiz history yet</div>''
      else concat (map (history_item fmt) (rev (hp_history data))))\<close>
    by (simp add: renderHistory_def history_blocks_def join_empty_sep)
  have b: "historyList (history_settled fmt (Payload data) s) =
           historyList (renderHistory fmt data s)"
    by (simp add: history_settled_def Let_def updateScoreDisplays_def renderHistory_def)
  have c: "history_blocks fmt data ! i =
           history_item fmt (hp_history data ! (length (hp_history data) - 1 - i))"
    if "i < length (hp_history data)" for i
    using that by (simp add: history_blocks_def rev_nth)
  show ?thesis using a b c history_item_shows [where fmt = fmt]
    by (simp add: history_blocks_def)
qed

theorem history_newest_first_witness:
  "(0::nat) < length (hp_history two_entries) \<and>
   history_blocks id two_entries ! 0 = history_item id (hp_history two_entries ! 1) \<and>
   (1::nat) < length (hp_history two_entries) \<and>
   history_blocks id two_entries ! 1 = history_item id (hp_history two_entries ! 0)"
proof -
  have n: "length (hp_history two_entries) = 2" by (simp add: two_entries_def)
  then have l0: "(0::nat) < length (hp_history two_entries)"
    and l1: "(1::nat) < length (hp_history two_entries)"
    by simp_all
  note t = history_newest_first [of id two_entries]
  from t l0 have "history_blocks id two_entries ! 0 =
      history_item id (hp_history two_entries ! (length (hp_history two_entries) - 1 - 0))"
    by blast
  with n have a: "history_blocks id two_entries ! 0 = history_item id (hp_history two_entries ! 1)"
    by simp
  from t l1 have "history_blocks id two_entries ! 1 =
      history_item id (hp_history two_entries ! (length (hp_history two_entries) - 1 - 1))"
    by blast
  with n have b: "history_blocks id two_entries ! 1 = history_item id (hp_history two_entries ! 0)"
    by simp
  from l0 a l1 b show ?thesis by blast
qed

end
